theory Spec2Isabelle
  imports Main "HOL-Library.Word"
begin

section \<open>Python values\<close>

text \<open>
  The state of a \<open>TaskManager\<close> is dynamically typed: after \<open>_load_persist\<close> a field
  holds whatever the persisted document held. The values the fields range over are the
  ones the \<open>json\<close> module maps to and from JSON text: \<open>None\<close>, booleans, unbounded
  integers, floats, strings, lists and dictionaries with string keys. A float is kept as
  its IEEE 754 bit pattern (no arithmetic on floats occurs in the program). A string is
  the UTF-8 encoding of the Python string; the only string operations of the program are
  concatenation, equality and the replacement of one ASCII character by another, which
  act the same way on the encoding. A dictionary is the list of its items in insertion
  order.
\<close>

datatype json =
    JNull
  | JBool bool
  | JInt int
  | JFloat "64 word"
  | JStr string
  | JArr "json list"
  | JObj "(string \<times> json) list"

text \<open>Python's truth value, as used by \<open>x or default\<close> and \<open>if x:\<close>.\<close>

fun truthy :: "json \<Rightarrow> bool" where
  "truthy JNull = False"
| "truthy (JBool b) = b"
| "truthy (JInt i) = (i \<noteq> 0)"
| "truthy (JFloat w) = (w \<noteq> 0 \<and> w \<noteq> 0x8000000000000000)"
| "truthy (JStr s) = (s \<noteq> [])"
| "truthy (JArr xs) = (xs \<noteq> [])"
| "truthy (JObj kvs) = (kvs \<noteq> [])"

text \<open>\<open>x or d\<close>\<close>

definition py_or :: "json \<Rightarrow> json \<Rightarrow> json" where
  "py_or x d = (if truthy x then x else d)"

text \<open>\<open>d.get(k, default)\<close> on a dictionary's items.\<close>

definition dict_get :: "(string \<times> json) list \<Rightarrow> string \<Rightarrow> json \<Rightarrow> json" where
  "dict_get kvs k d = (case map_of kvs k of Some v \<Rightarrow> v | None \<Rightarrow> d)"

text \<open>
  \<open>d[k] = v\<close> on a dictionary's items: the value of a key that is present is replaced
  where it stands, a new key goes last.
\<close>

fun dict_set :: "(string \<times> json) list \<Rightarrow> string \<Rightarrow> json \<Rightarrow> (string \<times> json) list" where
  "dict_set [] k v = [(k, v)]"
| "dict_set ((k', v') # kvs) k v = (if k' = k then (k, v) # kvs else (k', v') # dict_set kvs k v)"

text \<open>\<open>sep.join(xs)\<close>\<close>

fun join :: "string \<Rightarrow> string list \<Rightarrow> string" where
  "join sep [] = []"
| "join sep [x] = x"
| "join sep (x # y # ys) = x @ sep @ join sep (y # ys)"


definition nl :: string where
  "nl = [CHR 0x0A]"

section \<open>The environment: errors, files, output, the json module\<close>

datatype py_error =
    FileNotFoundError
  | IsADirectoryError
  | NotADirectoryError
  | PermissionError
  | OSError
  | ValueError
  | JSONDecodeError
  | AttributeError
  | TypeError
  | MalformedResponse

datatype node = File string | Dir

text \<open>
  The world outside the program. \<open>files\<close> says what each path, as the program writes
  it, names: a regular file that can be read, with its content, a directory, or nothing.
  \<open>write_refused\<close> is the error, if any, with which the operating system refuses to
  open a path for writing for a reason that is not in the file tree (permissions, a
  read-only or full device, a name that is too long). \<open>console\<close> holds the lines written so far through
  \<open>print\<close>, which is also the default \<open>output_func\<close>. The model does not resolve
  \<open>.\<close>, \<open>..\<close> or symbolic links.
\<close>

record world =
  files :: "string \<rightharpoonup> node"
  write_refused :: "string \<rightharpoonup> py_error"
  console :: "string list"

definition print :: "world \<Rightarrow> string \<Rightarrow> world" where
  "print w line = w\<lparr>console := console w @ [line]\<rparr>"

text \<open>\<open>os.path.exists(p)\<close>: true of files and of directories, false of the empty path.\<close>

definition path_exists :: "world \<Rightarrow> string \<Rightarrow> bool" where
  "path_exists w p = (p \<noteq> [] \<and> files w p \<noteq> None)"

text \<open>\<open>open(p, 'r')\<close> followed by reading the whole file.\<close>

definition read_file :: "world \<Rightarrow> string \<Rightarrow> py_error + string" where
  "read_file w p =
     (if p = [] then Inl FileNotFoundError
      else case files w p of
             None \<Rightarrow> Inl FileNotFoundError
           | Some Dir \<Rightarrow> Inl IsADirectoryError
           | Some (File txt) \<Rightarrow> Inr txt)"

text \<open>
  The directories a path goes through: its prefixes that end where a \<open>/\<close> follows a
  component (\<open>a\<close> and \<open>a/b\<close> for \<open>a/b/c\<close>).
\<close>

fun directories_from :: "string \<Rightarrow> string \<Rightarrow> string list" where
  "directories_from pre [] = []"
| "directories_from pre (c # cs) =
     (if c = CHR ''/'' \<and> pre \<noteq> [] \<and> last pre \<noteq> CHR ''/''
      then pre # directories_from (pre @ [c]) cs
      else directories_from (pre @ [c]) cs)"

definition directories_of :: "string \<Rightarrow> string list" where
  "directories_of p = directories_from [] p"

definition strip_slashes :: "string \<Rightarrow> string" where
  "strip_slashes p = rev (dropWhile (\<lambda>c. c = CHR ''/'') (rev p))"

text \<open>The first of the directories on the way that is missing or is a regular file.\<close>

fun blocked :: "world \<Rightarrow> string list \<Rightarrow> py_error option" where
  "blocked w [] = None"
| "blocked w (d # ds) =
     (case files w d of
        None \<Rightarrow> Some FileNotFoundError
      | Some (File t) \<Rightarrow> Some NotADirectoryError
      | Some Dir \<Rightarrow> blocked w ds)"

text \<open>
  The error \<open>open(p, 'w')\<close> raises, if it raises: on the empty path, on a path with a
  null character, on a path through a missing directory or through a regular file, on a
  path that names a directory or ends with \<open>/\<close>, and where the operating system
  refuses.
\<close>

definition open_w_error :: "world \<Rightarrow> string \<Rightarrow> py_error option" where
  "open_w_error w p =
     (if p = [] then Some FileNotFoundError
      else if CHR 0x00 \<in> set p then Some ValueError
      else case blocked w (directories_of (strip_slashes p)) of
             Some e \<Rightarrow> Some e
           | None \<Rightarrow>
               if last p = CHR ''/'' then
                 (case files w (strip_slashes p) of
                    Some (File t) \<Rightarrow> Some NotADirectoryError
                  | _ \<Rightarrow> Some IsADirectoryError)
               else
                 (case files w p of
                    Some Dir \<Rightarrow> Some IsADirectoryError
                  | _ \<Rightarrow> write_refused w p))"

text \<open>\<open>open(p, 'w')\<close> followed by writing \<open>txt\<close>: the file is created or overwritten.\<close>

definition write_file :: "world \<Rightarrow> string \<Rightarrow> string \<Rightarrow> py_error + world" where
  "write_file w p txt =
     (case open_w_error w p of
        Some e \<Rightarrow> Inl e
      | None \<Rightarrow> Inr (w\<lparr>files := (files w)(p \<mapsto> File txt)\<rparr>))"

text \<open>
  The standard library's \<open>json\<close> module is not part of the repository: its serialiser
  and its parser are parameters of the model.
\<close>

record json_module =
  dumps :: "json \<Rightarrow> string"
  loads :: "string \<Rightarrow> py_error + json"

section \<open>The module's functions\<close>



text \<open>
  \<^verbatim>\<open>def convert_langchain_tools(tools: List[BaseTool]) -> List[dict]:
    return [{'name': tool.name, 'description': tool.description}
            for tool in tools if isinstance(tool, BaseTool)]\<close>
  An element of the argument is a \<open>BaseTool\<close> with its name and description, or any
  other object.
\<close>

datatype py_object = BaseTool string string | Other json

fun isinstance_BaseTool :: "py_object \<Rightarrow> bool" where
  "isinstance_BaseTool (BaseTool n d) = True"
| "isinstance_BaseTool (Other v) = False"

fun tool_name :: "py_object \<Rightarrow> string" where
  "tool_name (BaseTool n d) = n"
| "tool_name (Other v) = []"

fun tool_description :: "py_object \<Rightarrow> string" where
  "tool_description (BaseTool n d) = d"
| "tool_description (Other v) = []"

text \<open>A tool descriptor: a dictionary whose values are strings.\<close>

type_synonym tool_dict = "(string \<times> string) list"

definition convert_langchain_tools :: "py_object list \<Rightarrow> tool_dict list" where
  "convert_langchain_tools tools =
     [[(''name'', tool_name tool), (''description'', tool_description tool)].
        tool \<leftarrow> tools, isinstance_BaseTool tool]"

section \<open>The TaskManager\<close>

text \<open>
  The attributes of a \<open>TaskManager\<close> instance. The callables (\<open>llm\<close>, \<open>output_func\<close>,
  \<open>complete_func\<close>, \<open>input_func\<close>) belong to the environment.
\<close>

record task_manager =
  final_goal :: string
  tools :: "tool_dict list"
  verbose :: bool
  allow_repeat_tasks :: bool
  completed_tasks :: json
  persist :: "string option"
  confirm_tool :: bool
  current_tasks :: json
  final_result :: json
  stored_info :: json
  goal_completed :: json
  tools_str :: string

text \<open>
  \<^verbatim>\<open>def _make_tools_str(self, tools: List[dict]) -> str:
    return '-----\n'.join(['\n'.join([f'{k}: {v}' for k, v in tool.items()]) for tool in tools])\<close>
\<close>

definition make_tools_str :: "tool_dict list \<Rightarrow> string" where
  "make_tools_str ts =
     join (''-----'' @ nl) [join nl [k @ '': '' @ v. (k, v) \<leftarrow> tool]. tool \<leftarrow> ts]"

text \<open>
  The four assignments that end \<open>_load_persist\<close>. \<open>saved.get\<close> exists only when the
  loaded document is a dictionary.
\<close>

definition assign_saved :: "task_manager \<Rightarrow> json \<Rightarrow> py_error + task_manager" where
  "assign_saved self saved =
     (case saved of
        JObj kvs \<Rightarrow>
          Inr (self\<lparr>stored_info := dict_get kvs ''stored_info'' (JObj []),
                    final_result := dict_get kvs ''final_result'' (JObj []),
                    current_tasks := dict_get kvs ''current_tasks'' (JArr []),
                    completed_tasks := dict_get kvs ''completed_tasks'' (JObj [])\<rparr>)
      | _ \<Rightarrow> Inl AttributeError)"

text \<open>
  \<^verbatim>\<open>def _load_persist(self):
    if os.path.exists(self.persist):
        with open(self.persist, 'r') as f:
            saved = json.load(f)
        self.output_func(f'[system] Loaded stored info from: {self.persist}')
    else:
        saved = {}
        self.output_func(f'[system] Could not read {self.persist}, assuming new file. It will be created later.')
    self.stored_info = saved.get('stored_info', {})
    ...\<close>
\<close>

definition load_persist ::
  "json_module \<Rightarrow> task_manager \<Rightarrow> world \<Rightarrow> py_error + task_manager \<times> world" where
  "load_persist jm self w =
     (case persist self of
        None \<Rightarrow> Inl TypeError
      | Some p \<Rightarrow>
          if path_exists w p then
            (case read_file w p of
               Inl e \<Rightarrow> Inl e
             | Inr txt \<Rightarrow>
                 (case loads jm txt of
                    Inl e \<Rightarrow> Inl e
                  | Inr saved \<Rightarrow>
                      (case assign_saved self saved of
                         Inl e \<Rightarrow> Inl e
                       | Inr self' \<Rightarrow>
                           Inr (self', print w (''[system] Loaded stored info from: '' @ p)))))
          else
            (case assign_saved self (JObj []) of
               Inl e \<Rightarrow> Inl e
             | Inr self' \<Rightarrow>
                 Inr (self', print w (''[system] Could not read '' @ p @
                        '', assuming new file. It will be created later.''))))"

text \<open>
  \<^verbatim>\<open>def _save_persist(self):
    with open(self.persist, 'w') as f:
        json.dump({'stored_info': self.stored_info, 'final_result': self.final_result,
                   'current_tasks': self.current_tasks,
                   'completed_tasks': self.completed_tasks}, f)
    self.output_func(f'saved stored info to: {self.persist}')\<close>
\<close>

definition persisted_document :: "task_manager \<Rightarrow> json" where
  "persisted_document self =
     JObj [(''stored_info'', stored_info self),
           (''final_result'', final_result self),
           (''current_tasks'', current_tasks self),
           (''completed_tasks'', completed_tasks self)]"

definition save_persist :: "json_module \<Rightarrow> task_manager \<Rightarrow> world \<Rightarrow> py_error + world" where
  "save_persist jm self w =
     (case persist self of
        None \<Rightarrow> Inl TypeError
      | Some p \<Rightarrow>
          (case write_file w p (dumps jm (persisted_document self)) of
             Inl e \<Rightarrow> Inl e
           | Inr w' \<Rightarrow> Inr (print w' (''saved stored info to: '' @ p))))"

text \<open>
  The arguments of the constructor. An omitted \<open>current_tasks\<close>, \<open>final_result\<close> or
  \<open>completed_tasks\<close> is \<open>None\<close>, an omitted \<open>persist\<close> is \<open>None\<close>.
\<close>

record init_args =
  arg_goal :: string
  arg_tools :: "tool_dict list"
  arg_verbose :: bool
  arg_current_tasks :: json
  arg_final_result :: json
  arg_allow_repeat_tasks :: bool
  arg_completed_tasks :: json
  arg_persist :: "string option"
  arg_confirm_tool :: bool

text \<open>\<open>if persist:\<close> on a value that is \<open>None\<close> or a string.\<close>

definition persist_given :: "string option \<Rightarrow> bool" where
  "persist_given po = (case po of None \<Rightarrow> False | Some p \<Rightarrow> p \<noteq> [])"

text \<open>
  The assignments of \<open>__init__\<close> before \<open>if persist:\<close>. The class attribute
  \<open>goal_completed = False\<close> is what an instance reads until it is assigned.
\<close>

definition init_fields :: "init_args \<Rightarrow> task_manager" where
  "init_fields a =
     \<lparr>final_goal = arg_goal a,
      tools = arg_tools a,
      verbose = arg_verbose a,
      allow_repeat_tasks = arg_allow_repeat_tasks a,
      completed_tasks = py_or (arg_completed_tasks a) (JObj []),
      persist = arg_persist a,
      confirm_tool = arg_confirm_tool a,
      current_tasks = py_or (arg_current_tasks a) (JArr []),
      final_result = py_or (arg_final_result a) (JObj []),
      stored_info = JObj [],
      goal_completed = JBool False,
      tools_str = []\<rparr>"

text \<open>
  \<^verbatim>\<open>def __init__(self, goal, tools, llm, ..., persist: str = None, confirm_tool: bool = False):
    ...
    self.stored_info = {}
    if persist:
        self._load_persist()
    self.tools_str = self._make_tools_str(self.tools)\<close>
\<close>

definition init :: "json_module \<Rightarrow> init_args \<Rightarrow> world \<Rightarrow> py_error + task_manager \<times> world" where
  "init jm a w =
     (let self = init_fields a in
      case (if persist_given (arg_persist a) then load_persist jm self w else Inr (self, w)) of
        Inl e \<Rightarrow> Inl e
      | Inr (self', w') \<Rightarrow> Inr (self'\<lparr>tools_str := make_tools_str (tools self')\<rparr>, w'))"

section \<open>The task loop\<close>

text \<open>
  \<open>src/task_manager.py\<close> ends with the constructor: the methods that create, execute
  and refine tasks and the \<open>run\<close> loop are not in it. The definitions of this section
  are written from the specification's description of them (section 4.1), over the same
  \<open>task_manager\<close> record, and each says so.

  The language model is an oracle with a state of its own: given a prompt it returns a
  text (it always answers: an error of the transport is outside the model). A prompt is
  kept as the name of its template with the values that fill it. \<open>checkCompletion()\<close>,
  which the specification calls optional and which its \<open>run()\<close> does not call, is not
  modelled.
\<close>

datatype prompt =
    Create_prompt string string
  | Task_prompt string string json json json
  | Refine_prompt string string
  | Fix_json_prompt string py_error

type_synonym 'm llm = "'m \<Rightarrow> prompt \<Rightarrow> string \<times> 'm"

text \<open>
  What a run can be observed to do: the prompts sent to the model, in order, and the
  invocations of the completion callback with their two arguments.
\<close>

datatype event = Prompted prompt | Completed string json

record 'm run_state =
  manager :: task_manager
  env :: world
  model :: 'm
  trace :: "event list"

text \<open>The tasks sent to the model as execution prompts, in order.\<close>

fun executed :: "event list \<Rightarrow> string list" where
  "executed [] = []"
| "executed (Prompted (Task_prompt g t r s f) # es) = t # executed es"
| "executed (e # es) = executed es"

text \<open>The malformed texts sent back to the model in repair prompts, in order.\<close>

fun repairs :: "event list \<Rightarrow> string list" where
  "repairs [] = []"
| "repairs (Prompted (Fix_json_prompt bad err) # es) = bad # repairs es"
| "repairs (e # es) = repairs es"

text \<open>The arguments of the invocations of the completion callback, in order.\<close>

fun callbacks :: "event list \<Rightarrow> (string \<times> json) list" where
  "callbacks [] = []"
| "callbacks (Completed g f # es) = (g, f) # callbacks es"
| "callbacks (e # es) = callbacks es"

text \<open>
  Modelled from the spec: the model call interface, absent from the source (``given a
  prompt string, return a text completion string''). The call is recorded in the trace.
\<close>

definition ask :: "'m llm \<Rightarrow> prompt \<Rightarrow> 'm run_state \<Rightarrow> string \<times> 'm run_state" where
  "ask llm p rs =
     (case llm (model rs) p of
        (txt, m') \<Rightarrow> (txt, rs\<lparr>model := m', trace := trace rs @ [Prompted p]\<rparr>))"

text \<open>
  Modelled from the spec: \<open>repairJson(badText, error)\<close>, absent from the source (``sends
  a dedicated prompt with a worked example of valid JSON, the malformed text, and the
  parser error, asking the model to return corrected JSON; retried a bounded number of
  times before surfacing a fatal parse error''). The bound is the first argument.
\<close>

fun repair_json ::
  "nat \<Rightarrow> json_module \<Rightarrow> 'm llm \<Rightarrow> string \<Rightarrow> py_error \<Rightarrow> 'm run_state \<Rightarrow> (py_error + json) \<times> 'm run_state"
where
  "repair_json 0 jm llm bad err rs = (Inl MalformedResponse, rs)"
| "repair_json (Suc n) jm llm bad err rs =
     (case ask llm (Fix_json_prompt bad err) rs of
        (txt, rs') \<Rightarrow>
          (case loads jm txt of
             Inr v \<Rightarrow> (Inr v, rs')
           | Inl e \<Rightarrow> repair_json n jm llm txt e rs'))"

text \<open>
  Modelled from the spec: the parsing of a model response in the create and refine
  steps, absent from the source (``parses the response; on parse failure, invokes the
  repair step'').
\<close>

definition parse_response ::
  "nat \<Rightarrow> json_module \<Rightarrow> 'm llm \<Rightarrow> string \<Rightarrow> 'm run_state \<Rightarrow> (py_error + json) \<times> 'm run_state"
where
  "parse_response retries jm llm txt rs =
     (case loads jm txt of
        Inr v \<Rightarrow> (Inr v, rs)
      | Inl e \<Rightarrow> repair_json retries jm llm txt e rs)"

text \<open>
  Modelled from the spec: \<open>createInitialTasks()\<close>, absent from the source (``sends a
  prompt combining the goal and tool listing, asking the model to produce an ordered list
  of tasks as JSON; parses the response; on parse failure, invokes the repair step;
  populates CurrentTasks''). As in \<open>_load_persist\<close>, a field is read with \<open>get\<close>, which
  only a dictionary has; a field the response does not return keeps its value.
\<close>

definition populate_tasks :: "(string \<times> json) list \<Rightarrow> task_manager \<Rightarrow> task_manager" where
  "populate_tasks kvs m = m\<lparr>current_tasks := dict_get kvs ''current_tasks'' (current_tasks m)\<rparr>"

definition create_initial_tasks ::
  "nat \<Rightarrow> json_module \<Rightarrow> 'm llm \<Rightarrow> 'm run_state \<Rightarrow> (py_error + unit) \<times> 'm run_state"
where
  "create_initial_tasks retries jm llm rs =
     (case ask llm (Create_prompt (final_goal (manager rs)) (tools_str (manager rs))) rs of
        (txt, rs1) \<Rightarrow>
          (case parse_response retries jm llm txt rs1 of
             (Inl e, rs2) \<Rightarrow> (Inl e, rs2)
           | (Inr (JObj kvs), rs2) \<Rightarrow>
               (Inr (), rs2\<lparr>manager := populate_tasks kvs (manager rs2)\<rparr>)
           | (Inr _, rs2) \<Rightarrow> (Inl AttributeError, rs2)))"

text \<open>The keys of a dictionary.\<close>

fun dict_keys :: "json \<Rightarrow> string list" where
  "dict_keys (JObj kvs) = map fst kvs"
| "dict_keys v = []"

text \<open>
  Modelled from the spec: \<open>executeNextTask()\<close>, absent from the source (``pops the first
  task off CurrentTasks, builds a task-execution prompt including the goal, the remaining
  task list, and a context string assembled from StoredInfo and FinalResult, sends it to
  the model, and treats the textual response as the task result''), with the repeat-task
  policy (``if allowRepeatTasks is false, a task already present as a key in
  CompletedTasks is skipped rather than executed again''). A task is a string.
\<close>

datatype step = Skipped string | Executed string string

definition execute_next_task :: "'m llm \<Rightarrow> 'm run_state \<Rightarrow> (py_error + step) \<times> 'm run_state" where
  "execute_next_task llm rs =
     (let m = manager rs in
      case current_tasks m of
        JArr (JStr task # rest) \<Rightarrow>
          (let rs1 = rs\<lparr>manager := m\<lparr>current_tasks := JArr rest\<rparr>\<rparr> in
           if \<not> allow_repeat_tasks m \<and> task \<in> set (dict_keys (completed_tasks m))
           then (Inr (Skipped task), rs1)
           else
             (case ask llm (Task_prompt (final_goal m) task (JArr rest) (stored_info m) (final_result m)) rs1 of
                (result, rs2) \<Rightarrow> (Inr (Executed task result), rs2)))
      | _ \<Rightarrow> (Inl TypeError, rs))"

text \<open>
  Modelled from the spec: \<open>refine(task, result)\<close>, absent from the source (``sends a
  prompt with the completed task and its result, asking the model to return updated
  CurrentTasks, StoredInfo, FinalResult, optional "thoughts" string (echoed to output),
  and a GoalComplete boolean; parses JSON (with repair fallback); applies all returned
  fields, overwriting the corresponding in-memory state. Records (task -> result) into
  CompletedTasks''). The keys are the ones the refine template of the source names.
\<close>

definition apply_returned_fields :: "(string \<times> json) list \<Rightarrow> task_manager \<Rightarrow> task_manager" where
  "apply_returned_fields kvs m =
     m\<lparr>current_tasks := dict_get kvs ''current_tasks'' (current_tasks m),
       stored_info := dict_get kvs ''stored_info'' (stored_info m),
       final_result := dict_get kvs ''final_result'' (final_result m),
       goal_completed := dict_get kvs ''goal_complete'' (goal_completed m)\<rparr>"

definition echo_thoughts :: "(string \<times> json) list \<Rightarrow> world \<Rightarrow> world" where
  "echo_thoughts kvs w = (case map_of kvs ''thoughts'' of Some (JStr t) \<Rightarrow> print w t | _ \<Rightarrow> w)"

definition record_completed :: "string \<Rightarrow> string \<Rightarrow> task_manager \<Rightarrow> py_error + task_manager" where
  "record_completed task result m =
     (case completed_tasks m of
        JObj done \<Rightarrow> Inr (m\<lparr>completed_tasks := JObj (dict_set done task (JStr result))\<rparr>)
      | _ \<Rightarrow> Inl TypeError)"

definition refine ::
  "nat \<Rightarrow> json_module \<Rightarrow> 'm llm \<Rightarrow> string \<Rightarrow> string \<Rightarrow> 'm run_state \<Rightarrow> (py_error + unit) \<times> 'm run_state"
where
  "refine retries jm llm task result rs =
     (case ask llm (Refine_prompt task result) rs of
        (txt, rs1) \<Rightarrow>
          (case parse_response retries jm llm txt rs1 of
             (Inl e, rs2) \<Rightarrow> (Inl e, rs2)
           | (Inr (JObj kvs), rs2) \<Rightarrow>
               (let rs3 = rs2\<lparr>manager := apply_returned_fields kvs (manager rs2),
                               env := echo_thoughts kvs (env rs2)\<rparr>
                in case record_completed task result (manager rs3) of
                     Inl e \<Rightarrow> (Inl e, rs3)
                   | Inr m \<Rightarrow> (Inr (), rs3\<lparr>manager := m\<rparr>))
           | (Inr _, rs2) \<Rightarrow> (Inl AttributeError, rs2)))"

text \<open>
  Modelled from the spec: the persistence step of the loop, absent from the source
  (``persist state after each refine if configured''), calling the source's
  \<open>_save_persist\<close>.
\<close>

definition persist_state :: "json_module \<Rightarrow> 'm run_state \<Rightarrow> (py_error + unit) \<times> 'm run_state" where
  "persist_state jm rs =
     (if persist_given (persist (manager rs)) then
        (case save_persist jm (manager rs) (env rs) of
           Inl e \<Rightarrow> (Inl e, rs)
         | Inr w \<Rightarrow> (Inr (), rs\<lparr>env := w\<rparr>))
      else (Inr (), rs))"

text \<open>
  Modelled from the spec: the loop of \<open>run()\<close>, absent from the source (``while not
  GoalComplete and CurrentTasks non-empty: executeNextTask(), refine(); persist state
  after each refine if configured''). Nothing bounds the number of iterations, so the loop
  takes fuel, one unit for each iteration: the result \<open>None\<close> is a loop still running
  when the fuel is spent, returned with the state reached.
\<close>

definition loop_finished :: "task_manager \<Rightarrow> bool" where
  "loop_finished m = (truthy (goal_completed m) \<or> \<not> truthy (current_tasks m))"

fun task_loop ::
  "nat \<Rightarrow> nat \<Rightarrow> json_module \<Rightarrow> 'm llm \<Rightarrow> 'm run_state \<Rightarrow> (py_error + unit) option \<times> 'm run_state"
where
  "task_loop 0 retries jm llm rs =
     (if loop_finished (manager rs) then (Some (Inr ()), rs) else (None, rs))"
| "task_loop (Suc fuel) retries jm llm rs =
     (if loop_finished (manager rs) then (Some (Inr ()), rs)
      else
        (case execute_next_task llm rs of
           (Inl e, rs1) \<Rightarrow> (Some (Inl e), rs1)
         | (Inr (Skipped task), rs1) \<Rightarrow> task_loop fuel retries jm llm rs1
         | (Inr (Executed task result), rs1) \<Rightarrow>
             (case refine retries jm llm task result rs1 of
                (Inl e, rs2) \<Rightarrow> (Some (Inl e), rs2)
              | (Inr u, rs2) \<Rightarrow>
                  (case persist_state jm rs2 of
                     (Inl e, rs3) \<Rightarrow> (Some (Inl e), rs3)
                   | (Inr u', rs3) \<Rightarrow> task_loop fuel retries jm llm rs3))))"

text \<open>
  Modelled from the spec: \<open>run()\<close>, absent from the source (``if CurrentTasks empty, call
  createInitialTasks(); while ...; on GoalComplete or exhausted tasks, invoke the
  completion callback with (goal, FinalResult)''; ``fatal errors terminate the run
  without completing the callback''; ``given zero tasks and GoalComplete already true at
  start, run() terminates immediately and invokes the completion callback exactly once
  with the current FinalResult''). The initial tasks are therefore created when there is
  no task and the goal is not complete yet. The callback is a parameter of the
  constructor; its invocation is recorded in the trace.
\<close>

definition complete :: "'m run_state \<Rightarrow> 'm run_state" where
  "complete rs =
     rs\<lparr>trace := trace rs @ [Completed (final_goal (manager rs)) (final_result (manager rs))]\<rparr>"

definition run ::
  "nat \<Rightarrow> nat \<Rightarrow> json_module \<Rightarrow> 'm llm \<Rightarrow> 'm run_state \<Rightarrow> (py_error + unit) option \<times> 'm run_state"
where
  "run fuel retries jm llm rs =
     (case (if truthy (current_tasks (manager rs)) \<or> truthy (goal_completed (manager rs))
            then (Inr (), rs)
            else create_initial_tasks retries jm llm rs) of
        (Inl e, rs1) \<Rightarrow> (Some (Inl e), rs1)
      | (Inr u, rs1) \<Rightarrow>
          (case task_loop fuel retries jm llm rs1 of
             (Some (Inr u'), rs2) \<Rightarrow> (Some (Inr ()), complete rs2)
           | (r, rs2) \<Rightarrow> (r, rs2)))"

section \<open>An instance of the json module\<close>

text \<open>
  \<open>plain_json\<close> instantiates the parameter in the examples below. It is a fragment
  of the module, not the module. \<open>render\<close> writes a value with the module's default
  separators and escapes the quotation mark, the backslash and the control characters as
  the module does; it leaves bytes above \<open>0x7F\<close> as they are (the module escapes their
  code points), and it has no decimal form for a float, for which it
  writes the module's \<open>NaN\<close>. \<open>parse\<close> reads JSON text with white space between the
  tokens, the escapes of strings below \<open>0x80\<close>, integers, and a repeated key as the
  module does (the last value, at the first place); a number with a fraction or an
  exponent, which the module reads as a float, and \<open>NaN\<close> and \<open>Infinity\<close> are
  outside it and fail to parse. The examples use it on texts without these.
\<close>

fun digits_of :: "nat \<Rightarrow> string" where
  "digits_of n =
     (if n < 10 then [char_of (48 + n)]
      else digits_of (n div 10) @ [char_of (48 + n mod 10)])"

definition show_int :: "int \<Rightarrow> string" where
  "show_int i = (if i < 0 then CHR ''-'' # digits_of (nat (- i)) else digits_of (nat i))"

definition hex_digit :: "nat \<Rightarrow> char" where
  "hex_digit n = (if n < 10 then char_of (48 + n) else char_of (87 + n))"

definition escape_char :: "char \<Rightarrow> string" where
  "escape_char c =
     (if c = CHR 0x22 then [CHR 0x5C, CHR 0x22]
      else if c = CHR 0x5C then [CHR 0x5C, CHR 0x5C]
      else if c = CHR 0x0A then [CHR 0x5C, CHR ''n'']
      else if c = CHR 0x0D then [CHR 0x5C, CHR ''r'']
      else if c = CHR 0x09 then [CHR 0x5C, CHR ''t'']
      else if c = CHR 0x08 then [CHR 0x5C, CHR ''b'']
      else if c = CHR 0x0C then [CHR 0x5C, CHR ''f'']
      else if (of_char c :: nat) < 32 \<or> c = CHR 0x7F then
        [CHR 0x5C, CHR ''u'', CHR ''0'', CHR ''0'',
         hex_digit ((of_char c :: nat) div 16), hex_digit ((of_char c :: nat) mod 16)]
      else [c])"

definition quote :: "string \<Rightarrow> string" where
  "quote s = CHR 0x22 # concat (map escape_char s) @ [CHR 0x22]"

fun render :: "json \<Rightarrow> string" where
  "render JNull = ''null''"
| "render (JBool b) = (if b then ''true'' else ''false'')"
| "render (JInt i) = show_int i"
| "render (JFloat w) = ''NaN''"
| "render (JStr s) = quote s"
| "render (JArr xs) = ''['' @ join '', '' (map render xs) @ '']''"
| "render (JObj kvs) =
     ''{'' @ join '', '' (map (\<lambda>kv. quote (fst kv) @ '': '' @ render (snd kv)) kvs) @ ''}''"

definition is_space :: "char \<Rightarrow> bool" where
  "is_space c = (c = CHR '' '' \<or> c = CHR 0x09 \<or> c = CHR 0x0A \<or> c = CHR 0x0D)"

definition skip_ws :: "string \<Rightarrow> string" where
  "skip_ws s = dropWhile is_space s"

definition hex_value :: "char \<Rightarrow> nat option" where
  "hex_value c =
     (let n = (of_char c :: nat) in
      if 48 \<le> n \<and> n \<le> 57 then Some (n - 48)
      else if 97 \<le> n \<and> n \<le> 102 then Some (n - 87)
      else if 65 \<le> n \<and> n \<le> 70 then Some (n - 55)
      else None)"

text \<open>The character an escape stands for, and the text after the escape.\<close>

fun read_escape :: "string \<Rightarrow> (char \<times> string) option" where
  "read_escape (c # a # b # x # y # cs) =
     (if c = CHR ''u'' then
        (case (hex_value a, hex_value b, hex_value x, hex_value y) of
           (Some h3, Some h2, Some h1, Some h0) \<Rightarrow>
             (if h3 = 0 \<and> h2 = 0 \<and> h1 < 8 then Some (char_of (16 * h1 + h0), cs) else None)
         | _ \<Rightarrow> None)
      else if c = CHR 0x22 \<or> c = CHR 0x5C \<or> c = CHR ''/'' then Some (c, a # b # x # y # cs)
      else if c = CHR ''n'' then Some (CHR 0x0A, a # b # x # y # cs)
      else if c = CHR ''r'' then Some (CHR 0x0D, a # b # x # y # cs)
      else if c = CHR ''t'' then Some (CHR 0x09, a # b # x # y # cs)
      else if c = CHR ''b'' then Some (CHR 0x08, a # b # x # y # cs)
      else if c = CHR ''f'' then Some (CHR 0x0C, a # b # x # y # cs)
      else None)"
| "read_escape (c # cs) =
     (if c = CHR 0x22 \<or> c = CHR 0x5C \<or> c = CHR ''/'' then Some (c, cs)
      else if c = CHR ''n'' then Some (CHR 0x0A, cs)
      else if c = CHR ''r'' then Some (CHR 0x0D, cs)
      else if c = CHR ''t'' then Some (CHR 0x09, cs)
      else if c = CHR ''b'' then Some (CHR 0x08, cs)
      else if c = CHR ''f'' then Some (CHR 0x0C, cs)
      else None)"
| "read_escape [] = None"

text \<open>
  The string that ends at the next quotation mark (\<open>fuel\<close> bounds the characters read),
  and the text after it.
\<close>

fun read_string :: "nat \<Rightarrow> string \<Rightarrow> string \<Rightarrow> (string \<times> string) option" where
  "read_string 0 acc s = None"
| "read_string (Suc n) acc [] = None"
| "read_string (Suc n) acc (c # cs) =
     (if c = CHR 0x22 then Some (rev acc, cs)
      else if c = CHR 0x5C then
        (case read_escape cs of
           None \<Rightarrow> None
         | Some (d, r) \<Rightarrow> read_string n (d # acc) r)
      else if (of_char c :: nat) < 32 then None
      else read_string n (c # acc) cs)"

definition is_digit :: "char \<Rightarrow> bool" where
  "is_digit c = (48 \<le> (of_char c :: nat) \<and> (of_char c :: nat) \<le> 57)"

fun digits_value :: "nat \<Rightarrow> string \<Rightarrow> nat" where
  "digits_value acc [] = acc"
| "digits_value acc (c # cs) = digits_value (10 * acc + (of_char c - 48)) cs"

text \<open>
  A number without sign: digits with no leading zero, not followed by a fraction or an
  exponent.
\<close>

definition read_nat :: "string \<Rightarrow> (nat \<times> string) option" where
  "read_nat s =
     (let ds = takeWhile is_digit s; r = dropWhile is_digit s in
      if ds = [] \<or> (hd ds = CHR ''0'' \<and> tl ds \<noteq> []) then None
      else case r of
             c # cs \<Rightarrow>
               if c = CHR ''.'' \<or> c = CHR ''e'' \<or> c = CHR ''E'' then None
               else Some (digits_value 0 ds, r)
           | [] \<Rightarrow> Some (digits_value 0 ds, r))"

fun strip_prefix :: "string \<Rightarrow> string \<Rightarrow> string option" where
  "strip_prefix [] s = Some s"
| "strip_prefix (p # ps) [] = None"
| "strip_prefix (p # ps) (c # cs) = (if p = c then strip_prefix ps cs else None)"

fun parse_value :: "nat \<Rightarrow> string \<Rightarrow> (json \<times> string) option"
  and parse_items :: "nat \<Rightarrow> json list \<Rightarrow> string \<Rightarrow> (json list \<times> string) option"
  and parse_members ::
    "nat \<Rightarrow> (string \<times> json) list \<Rightarrow> string \<Rightarrow> ((string \<times> json) list \<times> string) option"
where
  "parse_value 0 s = None"
| "parse_value (Suc n) s =
     (case skip_ws s of
        [] \<Rightarrow> None
      | c # cs \<Rightarrow>
          if c = CHR ''n'' then map_option (Pair JNull) (strip_prefix ''ull'' cs)
          else if c = CHR ''t'' then map_option (Pair (JBool True)) (strip_prefix ''rue'' cs)
          else if c = CHR ''f'' then map_option (Pair (JBool False)) (strip_prefix ''alse'' cs)
          else if c = CHR 0x22 then
            map_option (\<lambda>(k, r). (JStr k, r)) (read_string (length cs) [] cs)
          else if c = CHR ''-'' then
            map_option (\<lambda>(k, r). (JInt (- int k), r)) (read_nat cs)
          else if is_digit c then
            map_option (\<lambda>(k, r). (JInt (int k), r)) (read_nat (c # cs))
          else if c = CHR ''['' then
            (case skip_ws cs of
               d # ds \<Rightarrow>
                 if d = CHR '']'' then Some (JArr [], ds)
                 else map_option (\<lambda>(xs, r). (JArr xs, r)) (parse_items n [] cs)
             | [] \<Rightarrow> None)
          else if c = CHR ''{'' then
            (case skip_ws cs of
               d # ds \<Rightarrow>
                 if d = CHR ''}'' then Some (JObj [], ds)
                 else map_option (\<lambda>(kvs, r). (JObj kvs, r)) (parse_members n [] cs)
             | [] \<Rightarrow> None)
          else None)"
| "parse_items n acc s =
     (case parse_value n s of
        None \<Rightarrow> None
      | Some (v, r) \<Rightarrow>
          (case skip_ws r of
             c # cs \<Rightarrow>
               if c = CHR '']'' then Some (acc @ [v], cs)
               else if c = CHR '','' then
                 (case n of 0 \<Rightarrow> None | Suc m \<Rightarrow> parse_items m (acc @ [v]) cs)
               else None
           | [] \<Rightarrow> None))"
| "parse_members n acc s =
     (case skip_ws s of
        q # s1 \<Rightarrow>
          if q = CHR 0x22 then
            (case read_string (length s1) [] s1 of
               None \<Rightarrow> None
             | Some (k, s2) \<Rightarrow>
                 (case skip_ws s2 of
                    colon # s3 \<Rightarrow>
                      if colon = CHR '':'' then
                        (case parse_value n s3 of
                           None \<Rightarrow> None
                         | Some (v, r) \<Rightarrow>
                             (case skip_ws r of
                                c # cs \<Rightarrow>
                                  if c = CHR ''}'' then Some (dict_set acc k v, cs)
                                  else if c = CHR '','' then
                                    (case n of
                                       0 \<Rightarrow> None
                                     | Suc m \<Rightarrow> parse_members m (dict_set acc k v) cs)
                                  else None
                              | [] \<Rightarrow> None))
                      else None
                  | [] \<Rightarrow> None))
          else None
      | [] \<Rightarrow> None)"

definition parse :: "string \<Rightarrow> py_error + json" where
  "parse s =
     (case parse_value (Suc (length s)) s of
        Some (v, r) \<Rightarrow> if skip_ws r = [] then Inr v else Inl JSONDecodeError
      | None \<Rightarrow> Inl JSONDecodeError)"

definition plain_json :: json_module where
  "plain_json = \<lparr>dumps = render, loads = parse\<rparr>"

section \<open>Sample values\<close>

definition empty_world :: world where
  "empty_world = \<lparr>files = Map.empty, write_refused = Map.empty, console = []\<rparr>"

definition sample_args :: init_args where
  "sample_args =
     \<lparr>arg_goal = ''list three colors'',
      arg_tools = [[(''name'', ''search''), (''description'', ''web search'')],
                   [(''name'', ''shell''), (''description'', ''run a command'')]],
      arg_verbose = True,
      arg_current_tasks = JArr [JStr ''list three colors''],
      arg_final_result = JObj [(''colors'', JArr [])],
      arg_allow_repeat_tasks = False,
      arg_completed_tasks = JObj [(''greet'', JStr ''hello'')],
      arg_persist = Some ''state.json'',
      arg_confirm_tool = False\<rparr>"

definition sample_manager :: task_manager where
  "sample_manager = (init_fields sample_args)\<lparr>stored_info := JObj [(''n'', JInt 3)]\<rparr>"

definition sample_state_text :: string where
  "sample_state_text =
     ''{\"stored_info\": {\"n\": 3}, \"current_tasks\": [\"show results and terminate\"]}''"

definition stored_world :: world where
  "stored_world =
     \<lparr>files = [''state.json'' \<mapsto> File sample_state_text], write_refused = Map.empty,
      console = []\<rparr>"

text \<open>
  Two language models: one that never answers with JSON, and one that reads its answers
  off a script.
\<close>

definition stubborn_llm :: "unit llm" where
  "stubborn_llm m p = (''not json'', m)"

definition scripted_llm :: "string list llm" where
  "scripted_llm m p = (case m of [] \<Rightarrow> ([], []) | reply # replies \<Rightarrow> (reply, replies))"

definition finished_run :: "unit run_state" where
  "finished_run =
     \<lparr>manager = (init_fields sample_args)\<lparr>current_tasks := JArr [], goal_completed := JBool True\<rparr>,
      env = empty_world, model = (), trace = []\<rparr>"

definition scripted_run :: "string list \<Rightarrow> task_manager \<Rightarrow> string list run_state" where
  "scripted_run replies m = \<lparr>manager = m, env = empty_world, model = replies, trace = []\<rparr>"

definition repeat_run :: "string list run_state" where
  "repeat_run =
     scripted_run
       [''red, green, blue'', ''{\"current_tasks\": [], \"goal_complete\": true}'']
       ((init_fields sample_args)
          \<lparr>current_tasks := JArr [JStr ''greet'', JStr ''list three colors'']\<rparr>)"


section \<open>Files\<close>

lemma open_w_error_None:
  "open_w_error w p = None \<Longrightarrow> p \<noteq> [] \<and> files w p \<noteq> Some Dir"
  by (auto simp: open_w_error_def split: if_splits option.splits node.splits)

lemma write_file_ok:
  "open_w_error w p = None \<Longrightarrow>
   write_file w p txt = Inr (w\<lparr>files := (files w)(p \<mapsto> File txt)\<rparr>)"
  by (simp add: write_file_def)

lemma write_file_error:
  "open_w_error w p = Some e \<Longrightarrow> write_file w p txt = Inl e"
  by (simp add: write_file_def)

lemma write_file_Inr:
  "write_file w p txt = Inr w' \<Longrightarrow>
   open_w_error w p = None \<and> p \<noteq> [] \<and> files w p \<noteq> Some Dir
   \<and> w' = w\<lparr>files := (files w)(p \<mapsto> File txt)\<rparr>"
  by (auto simp: write_file_def split: option.splits dest: open_w_error_None)




lemma open_state_json: "open_w_error empty_world ''state.json'' = None"
  by code_simp

section \<open>The sample document\<close>

lemma sample_document:
  "persisted_document sample_manager
     = JObj [(''stored_info'', JObj [(''n'', JInt 3)]),
             (''final_result'', JObj [(''colors'', JArr [])]),
             (''current_tasks'', JArr [JStr ''list three colors'']),
             (''completed_tasks'', JObj [(''greet'', JStr ''hello'')])]"
  by (simp add: persisted_document_def sample_manager_def init_fields_def sample_args_def py_or_def)

lemma sample_document_text:
  "dumps plain_json (persisted_document sample_manager)
     = ''{\"stored_info\": {\"n\": 3}, \"final_result\": {\"colors\": []}, \"current_tasks\": [\"list three colors\"], \"completed_tasks\": {\"greet\": \"hello\"}}''"
  by code_simp

lemma sample_document_compatible:
  "loads plain_json (dumps plain_json (persisted_document sample_manager))
     = Inr (persisted_document sample_manager)"
  by code_simp

lemma parse_sample_state_text:
  "loads plain_json sample_state_text
     = Inr (JObj [(''stored_info'', JObj [(''n'', JInt 3)]),
                  (''current_tasks'', JArr [JStr ''show results and terminate''])])"
  by code_simp

section \<open>The completion callback and the tool conversion\<close>



text \<open>
  C9: \<open>convert_langchain_tools\<close> returns, in the order of the input, one dictionary for
  each element that is a \<open>BaseTool\<close>, with exactly the keys \<open>name\<close> and \<open>description\<close>
  and that tool's values; the other elements are dropped.
\<close>

theorem convert_langchain_tools_spec:
  "convert_langchain_tools objs
     = map (\<lambda>tool. [(''name'', tool_name tool), (''description'', tool_description tool)])
         (filter isinstance_BaseTool objs)
   \<and> length (convert_langchain_tools objs) = length (filter isinstance_BaseTool objs)
   \<and> (\<forall>d \<in> set (convert_langchain_tools objs). map fst d = [''name'', ''description''])
   \<and> convert_langchain_tools (BaseTool n d # objs)
       = [(''name'', n), (''description'', d)] # convert_langchain_tools objs
   \<and> convert_langchain_tools (Other v # objs) = convert_langchain_tools objs"
  by (induction objs) (auto simp: convert_langchain_tools_def)

theorem convert_langchain_tools_spec_witness:
  "convert_langchain_tools
     [BaseTool ''search'' ''web search'', Other (JInt 3), BaseTool ''shell'' ''run a command'']
     = [[(''name'', ''search''), (''description'', ''web search'')],
        [(''name'', ''shell''), (''description'', ''run a command'')]]"
  using convert_langchain_tools_spec
    [of "[BaseTool ''search'' ''web search'', Other (JInt 3), BaseTool ''shell'' ''run a command'']"]
  by simp

section \<open>Saving and loading the state\<close>

lemma save_persist_Inr:
  "save_persist jm self w = Inr w' \<Longrightarrow>
     \<exists>p. persist self = Some p \<and> p \<noteq> [] \<and> files w p \<noteq> Some Dir
        \<and> w' = print (w\<lparr>files := (files w)(p \<mapsto> File (dumps jm (persisted_document self)))\<rparr>)
                   (''saved stored info to: '' @ p)"
  by (auto simp: save_persist_def split: option.splits sum.splits dest!: write_file_Inr)

lemma sample_manager_persist: "persist sample_manager = Some ''state.json''"
  by (simp add: sample_manager_def init_fields_def sample_args_def)

lemma assign_saved_empty:
  "assign_saved self (JObj [])
     = Inr (self\<lparr>stored_info := JObj [], final_result := JObj [],
                 current_tasks := JArr [], completed_tasks := JObj []\<rparr>)"
  by (simp add: assign_saved_def dict_get_def)

lemma load_persist_missing:
  "persist self = Some p \<Longrightarrow> \<not> path_exists w p \<Longrightarrow>
   load_persist jm self w
     = Inr (self\<lparr>stored_info := JObj [], final_result := JObj [],
                 current_tasks := JArr [], completed_tasks := JObj []\<rparr>,
            print w (''[system] Could not read '' @ p @
                     '', assuming new file. It will be created later.''))"
  by (simp add: load_persist_def assign_saved_empty)

lemma load_persist_object:
  "persist self = Some p \<Longrightarrow> p \<noteq> [] \<Longrightarrow> files w p = Some (File txt) \<Longrightarrow>
   loads jm txt = Inr (JObj kvs) \<Longrightarrow>
   load_persist jm self w
     = Inr (self\<lparr>stored_info := dict_get kvs ''stored_info'' (JObj []),
                 final_result := dict_get kvs ''final_result'' (JObj []),
                 current_tasks := dict_get kvs ''current_tasks'' (JArr []),
                 completed_tasks := dict_get kvs ''completed_tasks'' (JObj [])\<rparr>,
            print w (''[system] Loaded stored info from: '' @ p))"
  by (simp add: load_persist_def path_exists_def read_file_def assign_saved_def)

lemma assign_saved_overwrites:
  "assign_saved (self\<lparr>completed_tasks := cd, current_tasks := ct, final_result := fr\<rparr>) saved
     = assign_saved self saved"
  by (simp add: assign_saved_def split: json.splits)

lemma load_persist_overwrites:
  "load_persist jm (self\<lparr>completed_tasks := cd, current_tasks := ct, final_result := fr\<rparr>) w
     = load_persist jm self w"
  by (simp add: load_persist_def assign_saved_overwrites split: option.splits sum.splits)

text \<open>
  C4: for every state with a persistence path, \<open>_save_persist\<close> opens that path for
  writing. When the path can be opened, the function returns having written to it the
  serialisation of a dictionary with exactly the four keys \<open>stored_info\<close>,
  \<open>final_result\<close>, \<open>current_tasks\<close> and \<open>completed_tasks\<close>, mapped to the four fields
  of the state, and no other file changes; when \<open>open\<close> raises, the function ends with
  that error.
\<close>

theorem save_persist_document:
  assumes "persist self = Some p"
  shows "(open_w_error w p = None \<longrightarrow>
           (\<exists>w'. save_persist jm self w = Inr w'
              \<and> files w' p
                  = Some (File (dumps jm (JObj [(''stored_info'', stored_info self),
                                                (''final_result'', final_result self),
                                                (''current_tasks'', current_tasks self),
                                                (''completed_tasks'', completed_tasks self)])))
              \<and> (\<forall>q. q \<noteq> p \<longrightarrow> files w' q = files w q)))
         \<and> (\<forall>e. open_w_error w p = Some e \<longrightarrow> save_persist jm self w = Inl e)"
  using assms
  by (simp add: save_persist_def write_file_ok write_file_error print_def persisted_document_def)

theorem save_persist_document_witness:
  "persist sample_manager = Some ''state.json'' \<and> open_w_error empty_world ''state.json'' = None
   \<and> (\<exists>w'. save_persist plain_json sample_manager empty_world = Inr w'
         \<and> files w' ''state.json''
            = Some (File ''{\"stored_info\": {\"n\": 3}, \"final_result\": {\"colors\": []}, \"current_tasks\": [\"list three colors\"], \"completed_tasks\": {\"greet\": \"hello\"}}''))
   \<and> open_w_error empty_world ''nodir/state.json'' = Some FileNotFoundError
   \<and> save_persist plain_json (sample_manager\<lparr>persist := Some ''nodir/state.json''\<rparr>) empty_world
       = Inl FileNotFoundError"
proof -
  have d: "JObj [(''stored_info'', stored_info sample_manager),
                 (''final_result'', final_result sample_manager),
                 (''current_tasks'', current_tasks sample_manager),
                 (''completed_tasks'', completed_tasks sample_manager)]
             = persisted_document sample_manager"
    by (simp add: persisted_document_def)
  have f: "open_w_error empty_world ''nodir/state.json'' = Some FileNotFoundError"
    by code_simp
  have q: "persist (sample_manager\<lparr>persist := Some ''nodir/state.json''\<rparr>) = Some ''nodir/state.json''"
    by simp
  from save_persist_document [OF sample_manager_persist, of empty_world plain_json] open_state_json
  have "\<exists>w'. save_persist plain_json sample_manager empty_world = Inr w'
         \<and> files w' ''state.json''
            = Some (File (dumps plain_json (persisted_document sample_manager)))"
    unfolding d by blast
  moreover from save_persist_document [OF q, of empty_world plain_json] f
  have "save_persist plain_json (sample_manager\<lparr>persist := Some ''nodir/state.json''\<rparr>) empty_world
          = Inl FileNotFoundError"
    by blast
  ultimately show ?thesis
    using sample_manager_persist open_state_json f unfolding sample_document_text by simp
qed

text \<open>
  C1: when \<open>_save_persist\<close> has returned for a state whose four persisted fields are
  JSON-compatible (the json module reads back, from the text it writes for the
  dictionary holding them, that dictionary), \<open>_load_persist\<close> on the same path returns,
  and the loaded \<open>stored_info\<close>, \<open>final_result\<close>, \<open>current_tasks\<close> and
  \<open>completed_tasks\<close> are the saved ones. The loading manager may be the saving one or
  any other with the same path; its other attributes are untouched.
\<close>

theorem persist_roundtrip:
  assumes saved: "save_persist jm self w = Inr w1"
      and compatible:
        "loads jm (dumps jm (persisted_document self)) = Inr (persisted_document self)"
      and same_path: "persist other = persist self"
  shows "\<exists>self' w2. load_persist jm other w1 = Inr (self', w2)
           \<and> stored_info self' = stored_info self
           \<and> final_result self' = final_result self
           \<and> current_tasks self' = current_tasks self
           \<and> completed_tasks self' = completed_tasks self
           \<and> self' = other\<lparr>stored_info := stored_info self, final_result := final_result self,
                            current_tasks := current_tasks self,
                            completed_tasks := completed_tasks self\<rparr>"
proof -
  from save_persist_Inr [OF saved] obtain p where
    p: "persist self = Some p" "p \<noteq> []"
    and w1: "w1 = print (w\<lparr>files := (files w)(p \<mapsto> File (dumps jm (persisted_document self)))\<rparr>)
                   (''saved stored info to: '' @ p)"
    by blast
  have ex: "path_exists w1 p" and rd: "read_file w1 p = Inr (dumps jm (persisted_document self))"
    using p by (simp_all add: w1 path_exists_def read_file_def print_def)
  have "assign_saved other (persisted_document self)
          = Inr (other\<lparr>stored_info := stored_info self, final_result := final_result self,
                       current_tasks := current_tasks self,
                       completed_tasks := completed_tasks self\<rparr>)"
    by (simp add: assign_saved_def persisted_document_def dict_get_def)
  then show ?thesis
    using p ex rd compatible same_path by (simp add: load_persist_def)
qed

theorem persist_roundtrip_witness:
  "\<exists>w1 self' w2. save_persist plain_json sample_manager empty_world = Inr w1
      \<and> load_persist plain_json (init_fields sample_args) w1 = Inr (self', w2)
      \<and> stored_info self' = JObj [(''n'', JInt 3)]
      \<and> final_result self' = JObj [(''colors'', JArr [])]
      \<and> current_tasks self' = JArr [JStr ''list three colors'']
      \<and> completed_tasks self' = JObj [(''greet'', JStr ''hello'')]"
proof -
  obtain w1 where s: "save_persist plain_json sample_manager empty_world = Inr w1"
    by (simp add: save_persist_def sample_manager_persist write_file_ok open_state_json)
  have p: "persist (init_fields sample_args) = persist sample_manager"
    by (simp add: sample_manager_def)
  from persist_roundtrip [OF s sample_document_compatible p] obtain self' w2 where
    l: "load_persist plain_json (init_fields sample_args) w1 = Inr (self', w2)"
    and f: "stored_info self' = stored_info sample_manager"
      "final_result self' = final_result sample_manager"
      "current_tasks self' = current_tasks sample_manager"
      "completed_tasks self' = completed_tasks sample_manager"
    by blast
  have "stored_info sample_manager = JObj [(''n'', JInt 3)]"
    "final_result sample_manager = JObj [(''colors'', JArr [])]"
    "current_tasks sample_manager = JArr [JStr ''list three colors'']"
    "completed_tasks sample_manager = JObj [(''greet'', JStr ''hello'')]"
    by (simp_all add: sample_manager_def init_fields_def sample_args_def py_or_def)
  with s l f show ?thesis
    by simp
qed

section \<open>The constructor\<close>

lemma init_fields_args:
  "init_fields (a\<lparr>arg_current_tasks := ct, arg_final_result := fr, arg_completed_tasks := cd\<rparr>)
     = (init_fields a)\<lparr>completed_tasks := py_or cd (JObj []),
                       current_tasks := py_or ct (JArr []),
                       final_result := py_or fr (JObj [])\<rparr>"
  by (simp add: init_fields_def)

lemma make_tools_str_descriptors:
  "make_tools_str (map (\<lambda>(n, d). [(''name'', n), (''description'', d)]) nds)
     = join (''-----'' @ nl) (map (\<lambda>(n, d). ''name: '' @ n @ nl @ ''description: '' @ d) nds)"
  by (simp add: make_tools_str_def comp_def case_prod_unfold)

lemma init_no_persist:
  "\<not> persist_given (arg_persist a) \<Longrightarrow>
   init jm a w = Inr ((init_fields a)\<lparr>tools_str := make_tools_str (arg_tools a)\<rparr>, w)"
  by (simp add: init_def init_fields_def)

lemma init_tools_str:
  "init jm a w = Inr (self, w') \<Longrightarrow>
   tools self = arg_tools a \<and> tools_str self = make_tools_str (arg_tools a)"
  by (auto simp: init_def Let_def load_persist_def assign_saved_def init_fields_def
           split: if_splits sum.splits option.splits json.splits)

text \<open>
  C3: when a persistence path is configured and nothing exists at that path, the
  constructor returns (no error): the four fields \<open>stored_info\<close>, \<open>final_result\<close>,
  \<open>current_tasks\<close> and \<open>completed_tasks\<close> are empty, and no file is created.
\<close>

theorem init_missing_file:
  assumes "arg_persist a = Some p" and "p \<noteq> []" and "files w p = None"
  shows "\<exists>self w'. init jm a w = Inr (self, w')
           \<and> stored_info self = JObj [] \<and> final_result self = JObj []
           \<and> current_tasks self = JArr [] \<and> completed_tasks self = JObj []
           \<and> files w' = files w"
proof -
  have "persist (init_fields a) = Some p"
    using assms by (simp add: init_fields_def)
  moreover have "\<not> path_exists w p"
    using assms by (simp add: path_exists_def)
  ultimately show ?thesis
    using assms by (simp add: init_def persist_given_def load_persist_missing print_def)
qed

theorem init_missing_file_witness:
  "arg_persist sample_args = Some ''state.json'' \<and> files empty_world ''state.json'' = None
   \<and> (\<exists>self w'. init plain_json sample_args empty_world = Inr (self, w')
           \<and> stored_info self = JObj [] \<and> final_result self = JObj []
           \<and> current_tasks self = JArr [] \<and> completed_tasks self = JObj []
           \<and> files w' = files empty_world)"
proof -
  have a: "arg_persist sample_args = Some ''state.json''"
    by (simp add: sample_args_def)
  have b: "files empty_world ''state.json'' = None"
    by (simp add: empty_world_def)
  have c: "''state.json'' \<noteq> []"
    by simp
  show ?thesis
    using a b init_missing_file [OF a c b, of plain_json] by simp
qed

text \<open>
  C8: when the constructor is given a persistence path, its arguments \<open>current_tasks\<close>,
  \<open>final_result\<close> and \<open>completed_tasks\<close> have no effect: whatever they are, the result is
  the same (the same manager, or the same error of loading). The constructor sets
  \<open>stored_info\<close> to the empty dictionary before loading, and when no file exists at the
  path all four fields are empty.
\<close>

theorem init_persist_discards_arguments:
  assumes "arg_persist a = Some p" and "p \<noteq> []"
  shows "init jm (a\<lparr>arg_current_tasks := ct, arg_final_result := fr, arg_completed_tasks := cd\<rparr>) w
           = init jm a w
         \<and> stored_info (init_fields a) = JObj []
         \<and> (files w p = None \<longrightarrow>
              (\<exists>self w'. init jm a w = Inr (self, w')
                 \<and> stored_info self = JObj [] \<and> final_result self = JObj []
                 \<and> current_tasks self = JArr [] \<and> completed_tasks self = JObj []))"
proof -
  have p: "persist (init_fields a) = Some p"
    using assms by (simp add: init_fields_def)
  have "init jm (a\<lparr>arg_current_tasks := ct, arg_final_result := fr, arg_completed_tasks := cd\<rparr>) w
          = init jm a w"
    using assms
    by (simp add: init_def persist_given_def init_fields_args load_persist_overwrites)
  moreover have "stored_info (init_fields a) = JObj []"
    by (simp add: init_fields_def)
  moreover have "files w p = None \<longrightarrow>
              (\<exists>self w'. init jm a w = Inr (self, w')
                 \<and> stored_info self = JObj [] \<and> final_result self = JObj []
                 \<and> current_tasks self = JArr [] \<and> completed_tasks self = JObj [])"
    using assms p
    by (simp add: init_def persist_given_def load_persist_missing path_exists_def)
  ultimately show ?thesis by blast
qed

theorem init_persist_discards_arguments_witness:
  "init plain_json (sample_args\<lparr>arg_current_tasks := JNull, arg_final_result := JNull,
                                 arg_completed_tasks := JNull\<rparr>) empty_world
     = init plain_json sample_args empty_world
   \<and> (\<exists>self w'. init plain_json sample_args empty_world = Inr (self, w')
         \<and> stored_info self = JObj [] \<and> final_result self = JObj []
         \<and> current_tasks self = JArr [] \<and> completed_tasks self = JObj [])"
proof -
  have a: "arg_persist sample_args = Some ''state.json''"
    by (simp add: sample_args_def)
  have b: "''state.json'' \<noteq> []"
    by simp
  have c: "files empty_world ''state.json'' = None"
    by (simp add: empty_world_def)
  from init_persist_discards_arguments [OF a b, of plain_json JNull JNull JNull empty_world] c
  show ?thesis by simp
qed

text \<open>
  C5, as the constructor has it. With a persistence path: when the file exists and holds
  a JSON object, the four fields are read from it, a key it lacks giving the empty value;
  when nothing exists at the path, the four fields are empty. Without a persistence path
  (none, or the empty string) nothing is loaded: \<open>stored_info\<close> is empty and
  \<open>current_tasks\<close>, \<open>final_result\<close> and \<open>completed_tasks\<close> are the constructor's
  arguments, the empty value standing for an argument that is omitted or falsy. Whenever
  the constructor returns, the tool listing string is built from the tool descriptor
  list; descriptors with a name and a description are rendered as the lines
  \<open>name: ...\<close> and \<open>description: ...\<close>, joined by \<open>-----\<close> and a newline.
\<close>

theorem init_state:
  "(arg_persist a = Some p \<and> p \<noteq> [] \<and> files w p = Some (File txt)
      \<and> loads jm txt = Inr (JObj kvs) \<longrightarrow>
      (\<exists>self w'. init jm a w = Inr (self, w')
         \<and> stored_info self = dict_get kvs ''stored_info'' (JObj [])
         \<and> final_result self = dict_get kvs ''final_result'' (JObj [])
         \<and> current_tasks self = dict_get kvs ''current_tasks'' (JArr [])
         \<and> completed_tasks self = dict_get kvs ''completed_tasks'' (JObj [])))
   \<and> (arg_persist a = Some p \<and> p \<noteq> [] \<and> files w p = None \<longrightarrow>
      (\<exists>self w'. init jm a w = Inr (self, w')
         \<and> stored_info self = JObj [] \<and> final_result self = JObj []
         \<and> current_tasks self = JArr [] \<and> completed_tasks self = JObj []))
   \<and> (\<not> persist_given (arg_persist a) \<longrightarrow>
      (\<exists>self. init jm a w = Inr (self, w)
         \<and> stored_info self = JObj []
         \<and> final_result self = py_or (arg_final_result a) (JObj [])
         \<and> current_tasks self = py_or (arg_current_tasks a) (JArr [])
         \<and> completed_tasks self = py_or (arg_completed_tasks a) (JObj [])))
   \<and> (\<forall>self w'. init jm a w = Inr (self, w') \<longrightarrow>
         tools_str self = make_tools_str (arg_tools a))
   \<and> make_tools_str (map (\<lambda>(n, d). [(''name'', n), (''description'', d)]) nds)
       = join (''-----'' @ nl) (map (\<lambda>(n, d). ''name: '' @ n @ nl @ ''description: '' @ d) nds)"
proof (intro conjI impI allI)
  assume h: "arg_persist a = Some p \<and> p \<noteq> [] \<and> files w p = Some (File txt)
      \<and> loads jm txt = Inr (JObj kvs)"
  then have "persist (init_fields a) = Some p"
    by (simp add: init_fields_def)
  with h show "\<exists>self w'. init jm a w = Inr (self, w')
         \<and> stored_info self = dict_get kvs ''stored_info'' (JObj [])
         \<and> final_result self = dict_get kvs ''final_result'' (JObj [])
         \<and> current_tasks self = dict_get kvs ''current_tasks'' (JArr [])
         \<and> completed_tasks self = dict_get kvs ''completed_tasks'' (JObj [])"
    by (simp add: init_def persist_given_def load_persist_object)
next
  assume h: "arg_persist a = Some p \<and> p \<noteq> [] \<and> files w p = None"
  then have "persist (init_fields a) = Some p" and "\<not> path_exists w p"
    by (simp_all add: init_fields_def path_exists_def)
  with h show "\<exists>self w'. init jm a w = Inr (self, w')
         \<and> stored_info self = JObj [] \<and> final_result self = JObj []
         \<and> current_tasks self = JArr [] \<and> completed_tasks self = JObj []"
    by (simp add: init_def persist_given_def load_persist_missing)
next
  assume "\<not> persist_given (arg_persist a)"
  then show "\<exists>self. init jm a w = Inr (self, w)
         \<and> stored_info self = JObj []
         \<and> final_result self = py_or (arg_final_result a) (JObj [])
         \<and> current_tasks self = py_or (arg_current_tasks a) (JArr [])
         \<and> completed_tasks self = py_or (arg_completed_tasks a) (JObj [])"
    by (simp add: init_no_persist init_fields_def)
next
  fix self w'
  assume "init jm a w = Inr (self, w')"
  then show "tools_str self = make_tools_str (arg_tools a)"
    by (simp add: init_tools_str)
next
  show "make_tools_str (map (\<lambda>(n, d). [(''name'', n), (''description'', d)]) nds)
       = join (''-----'' @ nl) (map (\<lambda>(n, d). ''name: '' @ n @ nl @ ''description: '' @ d) nds)"
    by (rule make_tools_str_descriptors)
qed

theorem init_state_witness:
  "\<exists>self w'. init plain_json sample_args stored_world = Inr (self, w')
       \<and> stored_info self = JObj [(''n'', JInt 3)]
       \<and> final_result self = JObj []
       \<and> current_tasks self = JArr [JStr ''show results and terminate'']
       \<and> completed_tasks self = JObj []
       \<and> tools_str self = ''name: search'' @ nl @ ''description: web search-----'' @ nl
                          @ ''name: shell'' @ nl @ ''description: run a command''"
proof -
  let ?kvs = "[(''stored_info'', JObj [(''n'', JInt 3)]),
               (''current_tasks'', JArr [JStr ''show results and terminate''])]"
  have h: "arg_persist sample_args = Some ''state.json'' \<and> ''state.json'' \<noteq> []
           \<and> files stored_world ''state.json'' = Some (File sample_state_text)
           \<and> loads plain_json sample_state_text = Inr (JObj ?kvs)"
    by (simp add: sample_args_def stored_world_def parse_sample_state_text)
  have t: "make_tools_str (arg_tools sample_args)
             = ''name: search'' @ nl @ ''description: web search-----'' @ nl
               @ ''name: shell'' @ nl @ ''description: run a command''"
    by (simp add: sample_args_def make_tools_str_def)
  note inst = init_state [of sample_args "''state.json''" stored_world sample_state_text
                            plain_json ?kvs "[]"]
  from inst h obtain self w' where
    i: "init plain_json sample_args stored_world = Inr (self, w')"
    and f: "stored_info self = dict_get ?kvs ''stored_info'' (JObj [])"
       "final_result self = dict_get ?kvs ''final_result'' (JObj [])"
       "current_tasks self = dict_get ?kvs ''current_tasks'' (JArr [])"
       "completed_tasks self = dict_get ?kvs ''completed_tasks'' (JObj [])"
    by blast
  from inst i have "tools_str self = make_tools_str (arg_tools sample_args)"
    by blast
  with i f t show ?thesis
    by (simp add: dict_get_def)
qed

text \<open>
  The claim C5 as it is written fails where no persistence path is given and the caller
  passes tasks and completed tasks: the manager starts with them, not empty.
\<close>

theorem init_without_persist_counterexample:
  "(case init plain_json (sample_args\<lparr>arg_persist := None\<rparr>) empty_world of
      Inl e \<Rightarrow> False
    | Inr (self, w) \<Rightarrow> current_tasks self = JArr [JStr ''list three colors'']
                      \<and> completed_tasks self = JObj [(''greet'', JStr ''hello'')])"
  by (simp add: init_no_persist persist_given_def sample_args_def init_fields_def py_or_def)

section \<open>The steps of the task loop\<close>

lemma executed_append: "executed (xs @ ys) = executed xs @ executed ys"
  by (induction xs rule: executed.induct) simp_all

lemma callbacks_append: "callbacks (xs @ ys) = callbacks xs @ callbacks ys"
  by (induction xs rule: callbacks.induct) simp_all

lemma repairs_append: "repairs (xs @ ys) = repairs xs @ repairs ys"
  by (induction xs rule: repairs.induct) simp_all

lemma ask_effect:
  "ask llm p rs = (reply, rs') \<Longrightarrow>
   manager rs' = manager rs \<and> env rs' = env rs \<and> trace rs' = trace rs @ [Prompted p]"
  by (auto simp: ask_def split: prod.splits)

lemma repair_json_effect:
  "repair_json n jm llm bad err rs = (r, rs') \<Longrightarrow>
   manager rs' = manager rs \<and> env rs' = env rs
   \<and> (\<exists>new. trace rs' = trace rs @ new \<and> executed new = [] \<and> callbacks new = []
         \<and> length (repairs new) = length new \<and> length new \<le> n
         \<and> (\<forall>e. r = Inl e \<longrightarrow> e = MalformedResponse \<and> length new = n))"
proof (induction n arbitrary: bad err rs)
  case 0
  then show ?case by auto
next
  case (Suc n)
  obtain reply rs1 where a: "ask llm (Fix_json_prompt bad err) rs = (reply, rs1)"
    by (cases "ask llm (Fix_json_prompt bad err) rs")
  note e = ask_effect [OF a]
  show ?case
  proof (cases "loads jm reply")
    case (Inr v)
    with Suc.prems a have "r = Inr v" "rs' = rs1"
      by simp_all
    with e show ?thesis
      by (intro conjI exI [of _ "[Prompted (Fix_json_prompt bad err)]"]) simp_all
  next
    case (Inl e')
    with Suc.prems a have "repair_json n jm llm reply e' rs1 = (r, rs')"
      by simp
    from Suc.IH [OF this] obtain new where
      n: "manager rs' = manager rs1" "env rs' = env rs1" "trace rs' = trace rs1 @ new"
         "executed new = []" "callbacks new = []" "length (repairs new) = length new"
         "length new \<le> n"
         "\<forall>e. r = Inl e \<longrightarrow> e = MalformedResponse \<and> length new = n"
      by blast
    show ?thesis
      using n e
      by (intro conjI exI [of _ "Prompted (Fix_json_prompt bad err) # new"]) simp_all
  qed
qed

lemma parse_response_effect:
  "parse_response n jm llm reply rs = (r, rs') \<Longrightarrow>
   manager rs' = manager rs \<and> env rs' = env rs
   \<and> (\<exists>new. trace rs' = trace rs @ new \<and> executed new = [] \<and> callbacks new = []
         \<and> length (repairs new) = length new \<and> length new \<le> n
         \<and> (\<forall>e. r = Inl e \<longrightarrow> e = MalformedResponse \<and> length new = n))"
proof (cases "loads jm reply")
  case (Inr v)
  assume "parse_response n jm llm reply rs = (r, rs')"
  with Inr have "r = Inr v" "rs' = rs"
    by (simp_all add: parse_response_def)
  then show ?thesis
    by (intro conjI exI [of _ "[]"]) simp_all
next
  case (Inl e)
  assume "parse_response n jm llm reply rs = (r, rs')"
  with Inl have "repair_json n jm llm reply e rs = (r, rs')"
    by (simp add: parse_response_def)
  from repair_json_effect [OF this] show ?thesis .
qed

lemma dict_keys_dict_set: "fst ` set (dict_set kvs k v) = insert k (fst ` set kvs)"
  by (induction kvs k v rule: dict_set.induct) auto

lemma execute_next_task_cases:
  assumes "execute_next_task llm rs = (r, rs1)"
  shows "(r = Inl TypeError \<and> rs1 = rs)
       \<or> (\<exists>task rest. current_tasks (manager rs) = JArr (JStr task # rest)
             \<and> r = Inr (Skipped task)
             \<and> \<not> allow_repeat_tasks (manager rs)
             \<and> task \<in> set (dict_keys (completed_tasks (manager rs)))
             \<and> rs1 = rs\<lparr>manager := (manager rs)\<lparr>current_tasks := JArr rest\<rparr>\<rparr>)
       \<or> (\<exists>task rest result. current_tasks (manager rs) = JArr (JStr task # rest)
             \<and> r = Inr (Executed task result)
             \<and> (allow_repeat_tasks (manager rs)
                  \<or> task \<notin> set (dict_keys (completed_tasks (manager rs))))
             \<and> manager rs1 = (manager rs)\<lparr>current_tasks := JArr rest\<rparr>
             \<and> env rs1 = env rs
             \<and> trace rs1 = trace rs @ [Prompted (Task_prompt (final_goal (manager rs)) task (JArr rest)
                                           (stored_info (manager rs)) (final_result (manager rs)))])"
  using assms
  by (auto simp: execute_next_task_def Let_def split: json.splits list.splits if_splits prod.splits
           dest!: ask_effect)

lemma refine_effect:
  assumes "refine n jm llm task result rs = (r, rs')"
  shows "allow_repeat_tasks (manager rs') = allow_repeat_tasks (manager rs)
       \<and> final_goal (manager rs') = final_goal (manager rs)
       \<and> persist (manager rs') = persist (manager rs)
       \<and> (\<exists>new. trace rs' = trace rs @ new \<and> executed new = [] \<and> callbacks new = []
             \<and> length (repairs new) \<le> n)
       \<and> (r = Inl MalformedResponse \<longrightarrow> manager rs' = manager rs \<and> env rs' = env rs)
       \<and> (\<forall>u. r = Inr u \<longrightarrow>
             set (dict_keys (completed_tasks (manager rs')))
               = insert task (set (dict_keys (completed_tasks (manager rs)))))"
proof -
  obtain reply rs1 where a: "ask llm (Refine_prompt task result) rs = (reply, rs1)"
    by (cases "ask llm (Refine_prompt task result) rs")
  obtain pr rs2 where b: "parse_response n jm llm reply rs1 = (pr, rs2)"
    by (cases "parse_response n jm llm reply rs1")
  note ea = ask_effect [OF a]
  from parse_response_effect [OF b] obtain new where
    eb: "manager rs2 = manager rs1" "env rs2 = env rs1" "trace rs2 = trace rs1 @ new"
        "executed new = []" "callbacks new = []" "length (repairs new) = length new"
        "length new \<le> n" "\<forall>e. pr = Inl e \<longrightarrow> e = MalformedResponse \<and> length new = n"
    by blast
  have tr: "trace rs2 = trace rs @ (Prompted (Refine_prompt task result) # new)"
    using ea eb by simp
  have props: "executed (Prompted (Refine_prompt task result) # new) = []"
    "callbacks (Prompted (Refine_prompt task result) # new) = []"
    "length (repairs (Prompted (Refine_prompt task result) # new)) \<le> n"
    using eb by simp_all
  let ?rs3 = "\<lambda>kvs. rs2\<lparr>manager := apply_returned_fields kvs (manager rs2),
                           env := echo_thoughts kvs (env rs2)\<rparr>"
  have shape:
    "(r = Inl MalformedResponse \<and> rs' = rs2)
     \<or> (r = Inl AttributeError \<and> rs' = rs2)
     \<or> (\<exists>kvs. r = Inl TypeError \<and> rs' = ?rs3 kvs)
     \<or> (\<exists>kvs fin. r = Inr () \<and> completed_tasks (manager rs2) = JObj fin
           \<and> rs' = (?rs3 kvs)\<lparr>manager := (apply_returned_fields kvs (manager rs2))
                                   \<lparr>completed_tasks := JObj (dict_set fin task (JStr result))\<rparr>\<rparr>)"
    using assms a b eb(8)
    by (auto simp: refine_def Let_def record_completed_def apply_returned_fields_def
             split: sum.splits json.splits)
  have fields: "\<And>kvs. allow_repeat_tasks (apply_returned_fields kvs (manager rs2))
                         = allow_repeat_tasks (manager rs)
                     \<and> final_goal (apply_returned_fields kvs (manager rs2)) = final_goal (manager rs)
                     \<and> persist (apply_returned_fields kvs (manager rs2)) = persist (manager rs)"
    using ea eb by (simp add: apply_returned_fields_def)
  from shape show ?thesis
  proof (elim disjE exE conjE)
    assume "r = Inl MalformedResponse" "rs' = rs2"
    with ea eb tr props show ?thesis by auto
  next
    assume "r = Inl AttributeError" "rs' = rs2"
    with ea eb tr props show ?thesis by auto
  next
    fix kvs
    assume "r = Inl TypeError" "rs' = ?rs3 kvs"
    with fields [of kvs] tr props show ?thesis by auto
  next
    fix kvs fin
    assume "r = Inr ()" "completed_tasks (manager rs2) = JObj fin"
      "rs' = (?rs3 kvs)\<lparr>manager := (apply_returned_fields kvs (manager rs2))
                                   \<lparr>completed_tasks := JObj (dict_set fin task (JStr result))\<rparr>\<rparr>"
    with fields [of kvs] tr props ea eb show ?thesis
      by (auto simp: dict_keys_dict_set)
  qed
qed

lemma persist_state_effect:
  "persist_state jm rs = (r, rs') \<Longrightarrow> manager rs' = manager rs \<and> trace rs' = trace rs"
  by (auto simp: persist_state_def split: if_splits sum.splits)

lemma create_initial_tasks_effect:
  assumes "create_initial_tasks n jm llm rs = (r, rs')"
  shows "allow_repeat_tasks (manager rs') = allow_repeat_tasks (manager rs)
       \<and> completed_tasks (manager rs') = completed_tasks (manager rs)
       \<and> final_goal (manager rs') = final_goal (manager rs)
       \<and> final_result (manager rs') = final_result (manager rs)
       \<and> goal_completed (manager rs') = goal_completed (manager rs)
       \<and> env rs' = env rs
       \<and> (\<exists>new. trace rs' = trace rs @ new \<and> executed new = [] \<and> callbacks new = []
             \<and> length (repairs new) \<le> n)
       \<and> (\<forall>e. r = Inl e \<longrightarrow> manager rs' = manager rs)"
proof -
  let ?p = "Create_prompt (final_goal (manager rs)) (tools_str (manager rs))"
  obtain reply rs1 where a: "ask llm ?p rs = (reply, rs1)"
    by (cases "ask llm ?p rs")
  obtain pr rs2 where b: "parse_response n jm llm reply rs1 = (pr, rs2)"
    by (cases "parse_response n jm llm reply rs1")
  note ea = ask_effect [OF a]
  from parse_response_effect [OF b] obtain new where
    eb: "manager rs2 = manager rs1" "env rs2 = env rs1" "trace rs2 = trace rs1 @ new"
        "executed new = []" "callbacks new = []" "length (repairs new) = length new"
        "length new \<le> n"
    by blast
  have tr: "trace rs2 = trace rs @ (Prompted ?p # new)"
    using ea eb by simp
  have props: "executed (Prompted ?p # new) = []" "callbacks (Prompted ?p # new) = []"
    "length (repairs (Prompted ?p # new)) \<le> n"
    using eb by simp_all
  have "rs' = rs2 \<and> (\<exists>e. r = Inl e)
        \<or> (\<exists>kvs. r = Inr () \<and> rs' = rs2\<lparr>manager := populate_tasks kvs (manager rs2)\<rparr>)"
    using assms a b by (auto simp: create_initial_tasks_def split: sum.splits json.splits)
  with ea eb tr props show ?thesis
    by (auto simp: populate_tasks_def)
qed

section \<open>The repeat-task policy\<close>

lemma task_loop_no_repeat:
  "\<not> allow_repeat_tasks (manager rs) \<Longrightarrow> task_loop fuel n jm llm rs = (r, rs') \<Longrightarrow>
   \<exists>new. trace rs' = trace rs @ new \<and> callbacks new = [] \<and> distinct (executed new)
     \<and> set (executed new) \<inter> set (dict_keys (completed_tasks (manager rs))) = {}"
proof (induction fuel arbitrary: rs)
  case 0
  then have "rs' = rs"
    by (auto split: if_splits)
  then show ?case by simp
next
  case (Suc fuel)
  show ?case
  proof (cases "loop_finished (manager rs)")
    case True
    with Suc.prems have "rs' = rs" by simp
    then show ?thesis by simp
  next
    case False
    obtain x rs1 where ex: "execute_next_task llm rs = (x, rs1)"
      by (cases "execute_next_task llm rs")
    from execute_next_task_cases [OF ex] Suc.prems(1)
    consider
      (error) "x = Inl TypeError" "rs1 = rs"
    | (skipped) task rest where "x = Inr (Skipped task)"
        "rs1 = rs\<lparr>manager := (manager rs)\<lparr>current_tasks := JArr rest\<rparr>\<rparr>"
    | (executed) task rest result where "x = Inr (Executed task result)"
        "task \<notin> set (dict_keys (completed_tasks (manager rs)))"
        "manager rs1 = (manager rs)\<lparr>current_tasks := JArr rest\<rparr>"
        "\<exists>p. trace rs1 = trace rs @ [Prompted p] \<and> executed [Prompted p] = [task]"
      by fastforce
    then show ?thesis
    proof cases
      case error
      with Suc.prems False ex have "rs' = rs" by simp
      then show ?thesis by simp
    next
      case skipped
      with Suc.prems False ex have "task_loop fuel n jm llm rs1 = (r, rs')"
        by simp
      moreover have "\<not> allow_repeat_tasks (manager rs1)"
        using skipped Suc.prems(1) by simp
      ultimately obtain new where "trace rs' = trace rs1 @ new" "callbacks new = []"
        "distinct (executed new)"
        "set (executed new) \<inter> set (dict_keys (completed_tasks (manager rs1))) = {}"
        using Suc.IH by blast
      with skipped show ?thesis by simp
    next
      case executed
      then obtain p where p: "trace rs1 = trace rs @ [Prompted p]" "executed [Prompted p] = [task]"
        by blast
      have cb: "callbacks [Prompted p] = []"
        by simp
      obtain y rs2 where re: "refine n jm llm task result rs1 = (y, rs2)"
        by (cases "refine n jm llm task result rs1")
      from refine_effect [OF re] obtain newr where
        r2: "allow_repeat_tasks (manager rs2) = allow_repeat_tasks (manager rs1)"
            "trace rs2 = trace rs1 @ newr" "executed newr = []" "callbacks newr = []"
            "\<forall>u. y = Inr u \<longrightarrow>
               set (dict_keys (completed_tasks (manager rs2)))
                 = insert task (set (dict_keys (completed_tasks (manager rs1))))"
        by blast
      have one: "trace rs2 = trace rs @ (Prompted p # newr)"
        "executed (Prompted p # newr) = [task]" "callbacks (Prompted p # newr) = []"
        using p r2 cb executed_append [of "[Prompted p]" newr]
          callbacks_append [of "[Prompted p]" newr] by simp_all
      have fresh: "task \<notin> set (dict_keys (completed_tasks (manager rs)))"
        by (rule executed(2))
      show ?thesis
      proof (cases y)
        case (Inl e)
        with Suc.prems False ex executed re have "rs' = rs2" by simp
        with one fresh show ?thesis
          by (intro exI [of _ "Prompted p # newr"]) simp
      next
        case (Inr u)
        obtain z rs3 where pe: "persist_state jm rs2 = (z, rs3)"
          by (cases "persist_state jm rs2")
        note e3 = persist_state_effect [OF pe]
        show ?thesis
        proof (cases z)
          case (Inl e)
          with Suc.prems False ex executed re Inr pe have "rs' = rs3" by simp
          with one fresh e3 show ?thesis
            by (intro exI [of _ "Prompted p # newr"]) simp
        next
          case (Inr u')
          with Suc.prems False ex executed re \<open>y = Inr u\<close> pe
          have "task_loop fuel n jm llm rs3 = (r, rs')"
            by simp
          moreover have "\<not> allow_repeat_tasks (manager rs3)"
            using e3 r2 executed Suc.prems(1) by simp
          ultimately obtain new where
            n: "trace rs' = trace rs3 @ new" "callbacks new = []" "distinct (executed new)"
               "set (executed new) \<inter> set (dict_keys (completed_tasks (manager rs3))) = {}"
            using Suc.IH by blast
          have keys: "set (dict_keys (completed_tasks (manager rs3)))
                        = insert task (set (dict_keys (completed_tasks (manager rs))))"
            using r2 \<open>y = Inr u\<close> e3 executed by simp
          have "trace rs' = trace rs @ ((Prompted p # newr) @ new)"
            using n e3 one by simp
          moreover have "executed ((Prompted p # newr) @ new) = task # executed new"
            using one executed_append [of "Prompted p # newr" new] by simp
          moreover have "callbacks ((Prompted p # newr) @ new) = []"
            using one n callbacks_append [of "Prompted p # newr" new] by simp
          moreover have "task \<notin> set (executed new)"
            "set (executed new) \<inter> set (dict_keys (completed_tasks (manager rs))) = {}"
            using n keys by auto
          ultimately show ?thesis
            using n fresh by (intro exI [of _ "(Prompted p # newr) @ new"]) simp
        qed
      qed
    qed
  qed
qed

text \<open>
  C2: in every run with \<open>allow_repeat_tasks\<close> false, whatever the model answers and
  however long the run lasts (for every amount of fuel, whether the run has returned,
  failed or is still going), no task that is a key of \<open>completed_tasks\<close> when the run
  starts is sent to the model as an execution prompt, and no task is sent twice. A task at
  the head of \<open>current_tasks\<close> that is a key of \<open>completed_tasks\<close> is popped and
  skipped: no prompt is sent for it.
\<close>

theorem run_never_repeats_completed_task:
  assumes "\<not> allow_repeat_tasks (manager rs)"
  shows "(run fuel n jm llm rs = (r, rs') \<longrightarrow>
            (\<exists>new. trace rs' = trace rs @ new \<and> distinct (executed new)
               \<and> set (executed new) \<inter> set (dict_keys (completed_tasks (manager rs))) = {}))
         \<and> (current_tasks (manager rs) = JArr (JStr task # rest)
              \<and> task \<in> set (dict_keys (completed_tasks (manager rs))) \<longrightarrow>
            execute_next_task llm rs
              = (Inr (Skipped task), rs\<lparr>manager := (manager rs)\<lparr>current_tasks := JArr rest\<rparr>\<rparr>))"
proof (intro conjI impI)
  assume run: "run fuel n jm llm rs = (r, rs')"
  let ?ready = "truthy (current_tasks (manager rs)) \<or> truthy (goal_completed (manager rs))"
  obtain c rs1 where c: "(if ?ready then (Inr (), rs)
                          else create_initial_tasks n jm llm rs) = (c, rs1)"
    by (cases "if ?ready then (Inr (), rs) else create_initial_tasks n jm llm rs")
  have "\<exists>new0. trace rs1 = trace rs @ new0 \<and> executed new0 = []
          \<and> allow_repeat_tasks (manager rs1) = allow_repeat_tasks (manager rs)
          \<and> completed_tasks (manager rs1) = completed_tasks (manager rs)"
  proof (cases ?ready)
    case True
    with c have "rs1 = rs" by simp
    then show ?thesis by simp
  next
    case False
    with c have "create_initial_tasks n jm llm rs = (c, rs1)" by simp
    from create_initial_tasks_effect [OF this] show ?thesis by blast
  qed
  then obtain new0 where
    n0: "trace rs1 = trace rs @ new0" "executed new0 = []"
        "allow_repeat_tasks (manager rs1) = allow_repeat_tasks (manager rs)"
        "completed_tasks (manager rs1) = completed_tasks (manager rs)"
    by blast
  show "\<exists>new. trace rs' = trace rs @ new \<and> distinct (executed new)
          \<and> set (executed new) \<inter> set (dict_keys (completed_tasks (manager rs))) = {}"
  proof (cases c)
    case (Inl e)
    with run c have "rs' = rs1" by (simp add: run_def)
    with n0 show ?thesis
      by (intro exI [of _ new0]) simp
  next
    case (Inr u)
    obtain x rs2 where l: "task_loop fuel n jm llm rs1 = (x, rs2)"
      by (cases "task_loop fuel n jm llm rs1")
    have "\<not> allow_repeat_tasks (manager rs1)"
      using n0 assms by simp
    from task_loop_no_repeat [OF this l] obtain new where
      n: "trace rs2 = trace rs1 @ new" "distinct (executed new)"
         "set (executed new) \<inter> set (dict_keys (completed_tasks (manager rs1))) = {}"
      by blast
    have "rs' = rs2 \<or> rs' = complete rs2"
      using run c Inr l by (auto simp: run_def split: option.splits sum.splits)
    then show ?thesis
    proof
      assume "rs' = rs2"
      with n n0 executed_append [of new0 new] show ?thesis
        by (intro exI [of _ "new0 @ new"]) simp
    next
      let ?cb = "Completed (final_goal (manager rs2)) (final_result (manager rs2))"
      assume "rs' = complete rs2"
      then have "trace rs' = trace rs @ (new0 @ new @ [?cb])"
        using n n0 by (simp add: complete_def)
      moreover have "executed (new0 @ new @ [?cb]) = executed new"
        using n0 by (simp add: executed_append)
      ultimately show ?thesis
        using n n0 by (intro exI [of _ "new0 @ new @ [?cb]"]) simp
    qed
  qed
next
  assume "current_tasks (manager rs) = JArr (JStr task # rest)
          \<and> task \<in> set (dict_keys (completed_tasks (manager rs)))"
  with assms show "execute_next_task llm rs
              = (Inr (Skipped task), rs\<lparr>manager := (manager rs)\<lparr>current_tasks := JArr rest\<rparr>\<rparr>)"
    by (simp add: execute_next_task_def)
qed

theorem run_never_repeats_completed_task_witness:
  "\<not> allow_repeat_tasks (manager repeat_run)
   \<and> fst (run (Suc (Suc 0)) (Suc 0) plain_json scripted_llm repeat_run) = Some (Inr ())
   \<and> executed (trace (snd (run (Suc (Suc 0)) (Suc 0) plain_json scripted_llm repeat_run)))
       = [''list three colors'']
   \<and> (\<exists>new. trace (snd (run (Suc (Suc 0)) (Suc 0) plain_json scripted_llm repeat_run))
                = trace repeat_run @ new
          \<and> distinct (executed new)
          \<and> set (executed new) \<inter> set (dict_keys (completed_tasks (manager repeat_run))) = {})
   \<and> fst (execute_next_task scripted_llm repeat_run) = Inr (Skipped ''greet'')"
proof -
  let ?run = "run (Suc (Suc 0)) (Suc 0) plain_json scripted_llm repeat_run"
  have h: "\<not> allow_repeat_tasks (manager repeat_run)"
    by (simp add: repeat_run_def scripted_run_def init_fields_def sample_args_def)
  have t: "current_tasks (manager repeat_run) = JArr (JStr ''greet'' # [JStr ''list three colors''])
           \<and> ''greet'' \<in> set (dict_keys (completed_tasks (manager repeat_run)))"
    by (simp add: repeat_run_def scripted_run_def init_fields_def sample_args_def py_or_def)
  have e: "fst ?run = Some (Inr ())" "executed (trace (snd ?run)) = [''list three colors'']"
    by code_simp+
  note inst = run_never_repeats_completed_task
    [OF h, of "Suc (Suc 0)" "Suc 0" plain_json scripted_llm "fst ?run" "snd ?run"
       "''greet''" "[JStr ''list three colors'']"]
  from inst have "\<exists>new. trace (snd ?run) = trace repeat_run @ new \<and> distinct (executed new)
          \<and> set (executed new) \<inter> set (dict_keys (completed_tasks (manager repeat_run))) = {}"
    by simp
  moreover from inst t have "fst (execute_next_task scripted_llm repeat_run) = Inr (Skipped ''greet'')"
    by simp
  ultimately show ?thesis
    using h e by blast
qed

section \<open>A run that starts with the goal complete\<close>

text \<open>
  C6: when \<open>run()\<close> starts with \<open>current_tasks\<close> empty and \<open>goal_completed\<close> true, it
  terminates at once, for every model and every amount of fuel: it returns without an
  error, having sent no prompt to the model (so no task is executed) and having invoked
  the completion callback exactly once, with the goal and the current \<open>final_result\<close>;
  the manager, the environment and the model are as they were.
\<close>

theorem run_when_goal_complete:
  assumes "\<not> truthy (current_tasks (manager rs))" and "truthy (goal_completed (manager rs))"
  shows "run fuel n jm llm rs = (Some (Inr ()), complete rs)
         \<and> trace (complete rs)
             = trace rs @ [Completed (final_goal (manager rs)) (final_result (manager rs))]
         \<and> manager (complete rs) = manager rs \<and> env (complete rs) = env rs
         \<and> model (complete rs) = model rs"
proof -
  have "loop_finished (manager rs)"
    using assms by (simp add: loop_finished_def)
  then have "task_loop fuel n jm llm rs = (Some (Inr ()), rs)"
    by (cases fuel) simp_all
  with assms have "run fuel n jm llm rs = (Some (Inr ()), complete rs)"
    by (simp add: run_def)
  then show ?thesis
    by (simp add: complete_def)
qed

theorem run_when_goal_complete_witness:
  "\<not> truthy (current_tasks (manager finished_run))
   \<and> truthy (goal_completed (manager finished_run))
   \<and> fst (run 0 (Suc (Suc 0)) plain_json stubborn_llm finished_run) = Some (Inr ())
   \<and> trace (snd (run 0 (Suc (Suc 0)) plain_json stubborn_llm finished_run))
       = [Completed ''list three colors'' (JObj [(''colors'', JArr [])])]
   \<and> executed (trace (snd (run 0 (Suc (Suc 0)) plain_json stubborn_llm finished_run))) = []
   \<and> callbacks (trace (snd (run 0 (Suc (Suc 0)) plain_json stubborn_llm finished_run)))
       = [(''list three colors'', JObj [(''colors'', JArr [])])]"
proof -
  have a: "\<not> truthy (current_tasks (manager finished_run))"
    and b: "truthy (goal_completed (manager finished_run))"
    by (simp_all add: finished_run_def)
  have g: "final_goal (manager finished_run) = ''list three colors''"
    "final_result (manager finished_run) = JObj [(''colors'', JArr [])]"
    "trace finished_run = []"
    by (simp_all add: finished_run_def init_fields_def sample_args_def py_or_def)
  from run_when_goal_complete [OF a b, of 0 "Suc (Suc 0)" plain_json stubborn_llm] a b g
  show ?thesis
    by simp
qed

section \<open>Malformed responses\<close>



end
